theory Spec2Isabelle
  imports Main "HOL-Library.Word" "HOL-Library.Signed_Division"
begin

section \<open>The Splunk HEC span sink (sinks/splunk/splunk.go)\<close>

text \<open>
  The sink is embedded with explicit state passing. Go's \<open>int\<close>, \<open>int64\<close> and
  \<open>time.Duration\<close> are 64-bit words read as two's complement, the three atomic
  counters are 32-bit words (\<open>atomic.AddUint32\<close> wraps). A panic of the Go runtime, an
  error return and a goroutine that blocks forever are values of the result types.
\<close>

subsection \<open>Machine integers\<close>

type_synonym int64 = "64 word"
type_synonym uint32 = "32 word"
type_synonym go_int = "64 word"
type_synonym Duration = "64 word"

text \<open>
  Go's \<open>%\<close> on signed integers truncates towards zero: the remainder has the sign of
  the dividend. A zero divisor is a run-time panic, written out where \<open>%\<close> is used.
\<close>

definition go_rem :: "int64 \<Rightarrow> int64 \<Rightarrow> int64" where
  "go_rem a b = word_of_int (sint a smod sint b)"

text \<open>\<open>strconv.FormatInt(x, 10)\<close> and \<open>strconv.Itoa\<close>: the decimal digits, with a minus sign.\<close>

definition digit_char :: "nat \<Rightarrow> char" where
  "digit_char d = ''0123456789'' ! d"

fun format_nat :: "nat \<Rightarrow> string" where
  "format_nat n = (if n < 10 then [digit_char n] else format_nat (n div 10) @ [digit_char (n mod 10)])"

declare format_nat.simps [simp del]

definition FormatInt :: "int64 \<Rightarrow> string" where
  "FormatInt x = (if sint x < 0 then CHR ''-'' # format_nat (nat (- sint x)) else format_nat (nat (sint x)))"

definition Itoa :: "go_int \<Rightarrow> string" where
  "Itoa x = FormatInt x"

subsection \<open>Data\<close>

datatype error = Err string

text \<open>The span record of package ssf, with the fields the sink reads.\<close>

record SSFSpan =
  TraceId :: int64
  Id :: int64
  ParentId :: int64
  StartTimestamp :: int64
  EndTimestamp :: int64
  Error :: bool
  Service :: string
  Tags :: "(string \<times> string) list"
  Indicator :: bool
  Name :: string

text \<open>
  A \<open>float64\<close> that is the quotient of two converted \<open>int64\<close> values is kept as its two
  operands, and a \<open>float32\<close> converted from a \<open>uint32\<close> as that operand: the rounding of
  the conversions is not part of the model.
\<close>

datatype float64 = float64_quot int64 int64
datatype float32 = float32 uint32

definition Second :: Duration where
  "Second = 1000000000"

record SerializedSSF =
  ser_TraceId :: string
  ser_Id :: string
  ser_ParentId :: string
  ser_StartTimestamp :: float64
  ser_EndTimestamp :: float64
  ser_Duration :: int64
  ser_Error :: bool
  ser_Service :: string
  ser_Tags :: "(string \<times> string) list"
  ser_Indicator :: bool
  ser_Name :: string

text \<open>
  Modelled from the spec: the HEC \<open>Event\<close> struct and its setters \<open>SetTime\<close>, \<open>SetHost\<close>
  and \<open>SetSourceType\<close> (hec.go is not among the sources). The spec gives the event body as
  time, host, sourcetype and event; the time is kept as the nanoseconds handed to
  \<open>time.Unix(0, _)\<close>.
\<close>

record Event =
  ev_time :: "int64 option"
  ev_host :: "string option"
  ev_sourcetype :: "string option"
  ev_event :: SerializedSSF

definition SetTime :: "int64 \<Rightarrow> Event \<Rightarrow> Event" where
  "SetTime t e = e\<lparr>ev_time := Some t\<rparr>"

definition SetHost :: "string \<Rightarrow> Event \<Rightarrow> Event" where
  "SetHost h e = e\<lparr>ev_host := Some h\<rparr>"

definition SetSourceType :: "string \<Rightarrow> Event \<Rightarrow> Event" where
  "SetSourceType s e = e\<lparr>ev_sourcetype := Some s\<rparr>"

text \<open>
  Modelled from the spec: the HEC client built by \<open>newHecClient\<close> from the endpoint URL and
  the auth token (hec.go is not among the sources). The constructor itself is a parameter of
  \<open>NewSplunkSpanSink\<close>, since it may fail.
\<close>

record hecClient =
  hec_server :: string
  hec_token :: string

text \<open>\<open>http.Transport\<close> and \<open>http.Client\<close>, with the fields the constructor sets.\<close>

record Transport =
  MaxIdleConnsPerHost :: go_int
  TLSClientConfig :: "string option"
  ResponseHeaderTimeout :: Duration

record Client =
  Transport :: Transport

datatype Logger = Logger nat
datatype trace_Client = trace_Client nat

text \<open>
  A channel of \<open>struct{}\<close> is unbuffered and carries no data: its state is whether it
  has been closed. The slice \<open>sync\<close> holds one such channel per submitter.
\<close>

datatype chan = Open | Closed

record splunkSpanSink =
  hec :: hecClient
  httpClient :: Client
  hostname :: string
  sendTimeout :: Duration
  ingestTimeout :: Duration
  workers :: go_int
  batchSize :: go_int
  hecSubmissionWorkers :: go_int
  ingestedSpans :: uint32
  droppedSpans :: uint32
  traceClient :: "trace_Client option"
  log :: Logger
  spanSampleRate :: int64
  skippedSpans :: uint32
  sync :: "chan list"
  synced :: int

subsection \<open>NewSplunkSpanSink\<close>

text \<open>
  Fields that the struct literal of the constructor does not name have Go's zero value:
  \<open>workers\<close>, \<open>hecSubmissionWorkers\<close>, the counters, \<open>traceClient\<close>, \<open>sync\<close> and \<open>synced\<close>.
\<close>

definition NewSplunkSpanSink ::
  "(string \<Rightarrow> string \<Rightarrow> error + hecClient) \<Rightarrow> string \<Rightarrow> string \<Rightarrow> string \<Rightarrow> string \<Rightarrow> Logger \<Rightarrow>
     Duration \<Rightarrow> Duration \<Rightarrow> go_int \<Rightarrow> go_int \<Rightarrow> go_int \<Rightarrow> error + splunkSpanSink" where
  "NewSplunkSpanSink newHecClient server token localHostname validateServerName lg
       ingestTimeout' sendTimeout' batchSize' workers' spanSampleRate' =
     (let spanSampleRate'' = (if spanSampleRate' <s 1 then 1 else spanSampleRate') in
      case newHecClient server token of
        Inl err \<Rightarrow> Inl err
      | Inr client \<Rightarrow>
          (let trnsp = \<lparr>MaxIdleConnsPerHost = 0, TLSClientConfig = None, ResponseHeaderTimeout = 0\<rparr>;
               trnsp = trnsp\<lparr>MaxIdleConnsPerHost := workers'\<rparr>;
               trnsp = (if validateServerName \<noteq> [] then trnsp\<lparr>TLSClientConfig := Some validateServerName\<rparr> else trnsp);
               trnsp = (if 0 <s sendTimeout' then trnsp\<lparr>ResponseHeaderTimeout := sendTimeout'\<rparr> else trnsp);
               httpC = \<lparr>Transport = trnsp\<rparr>
           in Inr \<lparr>hec = client,
                   httpClient = httpC,
                   hostname = localHostname,
                   sendTimeout = sendTimeout',
                   ingestTimeout = ingestTimeout',
                   workers = 0,
                   batchSize = batchSize',
                   hecSubmissionWorkers = 0,
                   ingestedSpans = 0,
                   droppedSpans = 0,
                   traceClient = None,
                   log = lg,
                   spanSampleRate = spanSampleRate'',
                   skippedSpans = 0,
                   sync = [],
                   synced = 0\<rparr>))"

subsection \<open>Results of a call\<close>

text \<open>
  A call returns, panics (a run-time panic of Go, with its message) or blocks forever on a
  channel or a wait group.
\<close>

datatype 'a go_result = Returns 'a | Panics string | Blocks

subsection \<open>Logging and self-metrics\<close>

datatype level = WarnLevel | ErrorLevel

datatype field_value =
  error_value error
| int_value go_int
| int_ptr_value "go_int option"
| string_value string
| event_value Event

record log_entry =
  entry_level :: level
  entry_message :: string
  entry_fields :: "(string \<times> field_value) list"

text \<open>
  The metric names of package sinks are constants declared outside the sources; they are
  kept symbolic. A sample is the call of \<open>ssf.Count\<close> or \<open>ssf.Timing\<close> that builds it.
\<close>

datatype metric_name =
  MetricKeyTotalSpansFlushed
| MetricKeyTotalSpansDropped
| MetricKeyTotalSpansSkipped
| metric string

datatype SSFSample =
  Count metric_name float32 "(string \<times> string) list"
| Timing metric_name Duration Duration "(string \<times> string) list"

definition successMetric :: metric_name where
  "successMetric = metric ''splunk.hec_submission_success_total''"

definition failureMetric :: metric_name where
  "failureMetric = metric ''splunk.hec_submission_failed_total''"

definition timingMetric :: metric_name where
  "timingMetric = metric ''splunk.span_submission_lifetime_ns''"

definition Nanosecond :: Duration where
  "Nanosecond = 1"

definition sink_Name :: string where
  "sink_Name = ''splunk''"

subsection \<open>The submitter goroutine\<close>

text \<open>
  A submitter is sequential: between two executions of its \<open>select\<close> it runs alone on its
  local variables. Its state is kept at the \<open>select\<close>: \<open>req\<close> says whether the current
  HEC request has been started (\<open>req != nil\<close>, the helper \<open>makeHTTPRequest\<close> spawned),
  \<open>ingested\<close> is the counter of the batch, \<open>body\<close> the events that the encoder wrote into
  the current request. \<open>posted\<close> collects the bodies of the requests that were started and
  then closed, \<open>exited\<close> says that the goroutine has returned. \<open>batches\<close> is a ghost
  counter of the batches ended: it counts how often control has left the loop \<open>Batch\<close>, by
  \<open>break Batch\<close> or by \<open>return\<close>.

  The case that \<open>select\<close> takes, and the results of the two calls into the HEC client that
  can fail, come from the environment: \<open>SyncRecv ok\<close> is a receive from the sync channel
  (\<open>ok = False\<close> when it is closed), \<open>IngestRecv ev start_err encode_err\<close> is the receive
  of \<open>ev\<close> from the ingest channel, where \<open>start_err\<close> is the error of \<open>hecReq.Start()\<close>
  (read only when \<open>req\<close> is nil) and \<open>encode_err\<close> the error of \<open>enc.Encode(ev)\<close>.
\<close>

datatype select_case =
  SyncRecv bool
| IngestRecv Event "error option" "error option"

record submitter =
  req :: bool
  ingested :: go_int
  body :: "Event list"
  posted :: "Event list list"
  batches :: nat
  exited :: bool
  sub_log :: "log_entry list"

definition new_submitter :: submitter where
  "new_submitter =
     \<lparr>req = False, ingested = 0, body = [], posted = [], batches = 0, exited = False, sub_log = []\<rparr>"

text \<open>
  Modelled from the spec: \<open>hecReq.Close()\<close> ends the body of the request (hec.go is not
  among the sources). The request is lazy: when it was never started, no HTTP request
  exists and nothing is posted.
\<close>

definition hecReq_Close :: "submitter \<Rightarrow> submitter" where
  "hecReq_Close s = (if req s then s\<lparr>posted := posted s @ [body s]\<rparr> else s)"

text \<open>
  Leaving the loop \<open>Batch\<close>: the batch is counted, and the head of the outer loop makes a
  fresh HEC request, with \<open>req\<close> nil and \<open>ingested\<close> zero.
\<close>

definition next_batch :: "submitter \<Rightarrow> submitter" where
  "next_batch s = s\<lparr>req := False, ingested := 0, body := [], batches := Suc (batches s)\<rparr>"

definition warn :: "string \<Rightarrow> (string \<times> field_value) list \<Rightarrow> submitter \<Rightarrow> submitter" where
  "warn m fs s = s\<lparr>sub_log := sub_log s @ [\<lparr>entry_level = WarnLevel, entry_message = m, entry_fields = fs\<rparr>]\<rparr>"

fun submitter_step :: "go_int \<Rightarrow> submitter \<Rightarrow> select_case \<Rightarrow> submitter" where
  "submitter_step bs s (SyncRecv ok) =
     (if exited s then s
      else let s = hecReq_Close s in
        if \<not> ok then (next_batch s)\<lparr>exited := True\<rparr>
        else next_batch s)"
| "submitter_step bs s (IngestRecv ev start_err encode_err) =
     (if exited s then s
      else let s = s\<lparr>ingested := ingested s + 1\<rparr> in
        if \<not> req s \<and> start_err \<noteq> None then
          next_batch (warn ''Could not create HEC request'' [(''error'', error_value (the start_err))] s)
        else let s = s\<lparr>req := True\<rparr> in
          (case encode_err of
             Some err \<Rightarrow>
               warn ''Could not json-encode HEC event'' [(''error'', error_value err), (''event'', event_value ev)] s
           | None \<Rightarrow>
               (let s = s\<lparr>body := body s @ [ev]\<rparr> in
                if bs \<le>s ingested s then next_batch (hecReq_Close s) else s)))"

text \<open>A submitter run on the cases its \<open>select\<close> takes, in order.\<close>

definition submitter_run :: "go_int \<Rightarrow> submitter \<Rightarrow> select_case list \<Rightarrow> submitter" where
  "submitter_run bs s cs = foldl (submitter_step bs) s cs"

text \<open>A submitter at the head of a batch: running, no request started, nothing counted.\<close>

definition fresh :: "submitter \<Rightarrow> bool" where
  "fresh s = (\<not> exited s \<and> \<not> req s \<and> ingested s = 0 \<and> body s = [])"

text \<open>The requests that a submitter has started so far, closed or not.\<close>

definition started_requests :: "submitter \<Rightarrow> Event list list" where
  "started_requests s = posted s @ (if req s then [body s] else [])"

subsection \<open>Start, Stop, Sync\<close>

text \<open>
  The running sink: the struct and the submitter goroutines that \<open>Start\<close> spawned, where
  goroutine \<open>i\<close> listens on the channel \<open>sync ! i\<close>.
\<close>

record runtime =
  sss :: splunkSpanSink
  goroutines :: "submitter list"

definition Start :: "trace_Client \<Rightarrow> splunkSpanSink \<Rightarrow> runtime" where
  "Start cl s =
     (let s = s\<lparr>traceClient := Some cl\<rparr>;
          workers' = (if 0 <s workers s then workers s else 1);
          n = nat (sint workers')
      in \<lparr>sss = s\<lparr>sync := replicate n Open\<rparr>, goroutines = replicate n new_submitter\<rparr>)"

text \<open>
  \<open>Stop\<close> closes the channels in order; \<open>close\<close> of a channel that is closed already is a
  run-time panic.
\<close>

definition Stop :: "runtime \<Rightarrow> runtime go_result" where
  "Stop rt =
     (if Closed \<in> set (sync (sss rt)) then Panics ''close of closed channel''
      else Returns (rt\<lparr>sss := (sss rt)\<lparr>sync := map (\<lambda>signal. Closed) (sync (sss rt))\<rparr>\<rparr>))"

text \<open>
  What a submitter does once it is scheduled and its \<open>select\<close> finds its sync channel
  closed. The step is the goroutine's own: \<open>close\<close> does not wait for it.
\<close>

definition observe_close :: "nat \<Rightarrow> runtime \<Rightarrow> runtime" where
  "observe_close i rt =
     (if i < length (goroutines rt) \<and> i < length (sync (sss rt)) \<and> sync (sss rt) ! i = Closed
      then rt\<lparr>goroutines := (goroutines rt)[i := submitter_step (batchSize (sss rt)) (goroutines rt ! i)
                 (SyncRecv False)]\<rparr>
      else rt)"

text \<open>
  The receive of an event by submitter \<open>i\<close>, once \<open>Ingest\<close> has found it ready.
\<close>

definition deliver :: "nat \<Rightarrow> Event \<Rightarrow> error option \<Rightarrow> error option \<Rightarrow> runtime \<Rightarrow> runtime" where
  "deliver i ev start_err encode_err rt =
     (if i < length (goroutines rt)
      then rt\<lparr>goroutines := (goroutines rt)[i := submitter_step (batchSize (sss rt)) (goroutines rt ! i)
                 (IngestRecv ev start_err encode_err)]\<rparr>
      else rt)"

text \<open>
  \<open>signal <- struct{}{}\<close> on channel \<open>i\<close>. The channel is unbuffered: the send panics
  when the channel is closed, and completes when submitter \<open>i\<close> is back at its \<open>select\<close>
  and takes the case; the submitter then closes its request and calls \<open>synced.Done()\<close>.
  Without a live receiver the send blocks. A wait group panics when its counter would
  become negative, in \<open>Add\<close> and in \<open>Done\<close>.
\<close>

definition sync_send :: "nat \<Rightarrow> runtime \<Rightarrow> runtime go_result" where
  "sync_send i rt =
     (if sync (sss rt) ! i = Closed then Panics ''send on closed channel''
      else if i < length (goroutines rt) \<and> \<not> exited (goroutines rt ! i) then
        if synced (sss rt) - 1 < 0 then Panics ''sync: negative WaitGroup counter''
        else Returns (rt\<lparr>sss := (sss rt)\<lparr>synced := synced (sss rt) - 1\<rparr>,
                   goroutines := (goroutines rt)[i := submitter_step (batchSize (sss rt)) (goroutines rt ! i) (SyncRecv True)]\<rparr>)
      else Blocks)"

fun sync_loop :: "nat list \<Rightarrow> runtime \<Rightarrow> runtime go_result" where
  "sync_loop [] rt = Returns rt"
| "sync_loop (i # js) rt =
     (case sync_send i rt of
        Returns rt' \<Rightarrow> sync_loop js rt'
      | Panics m \<Rightarrow> Panics m
      | Blocks \<Rightarrow> Blocks)"

definition Sync :: "runtime \<Rightarrow> runtime go_result" where
  "Sync rt =
     (let n = length (sync (sss rt)) in
      if synced (sss rt) + int n < 0 then Panics ''sync: negative WaitGroup counter''
      else let rt = rt\<lparr>sss := (sss rt)\<lparr>synced := synced (sss rt) + int n\<rparr>\<rparr>
        in case sync_loop [0..<n] rt of
             Returns rt' \<Rightarrow> (if synced (sss rt') = 0 then Returns rt' else Blocks)
           | Panics m \<Rightarrow> Panics m
           | Blocks \<Rightarrow> Blocks)"

subsection \<open>Flush\<close>

text \<open>
  \<open>atomic.SwapUint32(&c, 0)\<close> returns the old value and stores zero. The samples handed to
  \<open>metrics.Report\<close> are returned with the state.
\<close>

definition Flush :: "runtime \<Rightarrow> (runtime \<times> SSFSample list) go_result" where
  "Flush rt =
     (case Sync rt of
        Panics m \<Rightarrow> Panics m
      | Blocks \<Rightarrow> Blocks
      | Returns rt \<Rightarrow>
          (let s = sss rt;
               flushed = ingestedSpans s; s = s\<lparr>ingestedSpans := 0\<rparr>;
               dropped = droppedSpans s; s = s\<lparr>droppedSpans := 0\<rparr>;
               skipped = skippedSpans s; s = s\<lparr>skippedSpans := 0\<rparr>;
               samples =
                 [Count MetricKeyTotalSpansFlushed (float32 flushed) [(''sink'', sink_Name)],
                  Count MetricKeyTotalSpansDropped (float32 dropped) [(''sink'', sink_Name)],
                  Count MetricKeyTotalSpansSkipped (float32 skipped) [(''sink'', sink_Name)]]
           in Returns (rt\<lparr>sss := s\<rparr>, samples)))"

subsection \<open>Ingest\<close>

text \<open>
  \<open>protocol.ValidateTrace\<close> is declared outside the sources and is a parameter. The
  outcome of the final \<open>select\<close> comes from the environment: \<open>received\<close> says that a
  submitter takes the event from the unbuffered ingest channel (before the deadline, when
  there is one). Without a receiver the context of a positive \<open>ingestTimeout\<close> expires;
  \<open>context.Background()\<close> is never done, so the send then waits forever.

  The result is the error returned, the sink with its counters, and the event handed to a
  submitter, if any.
\<close>

definition serialize :: "SSFSpan \<Rightarrow> SerializedSSF" where
  "serialize ssfSpan =
     \<lparr>ser_TraceId = FormatInt (TraceId ssfSpan),
      ser_Id = FormatInt (Id ssfSpan),
      ser_ParentId = FormatInt (ParentId ssfSpan),
      ser_StartTimestamp = float64_quot (StartTimestamp ssfSpan) Second,
      ser_EndTimestamp = float64_quot (EndTimestamp ssfSpan) Second,
      ser_Duration = EndTimestamp ssfSpan - StartTimestamp ssfSpan,
      ser_Error = Error ssfSpan,
      ser_Service = Service ssfSpan,
      ser_Tags = Tags ssfSpan,
      ser_Indicator = Indicator ssfSpan,
      ser_Name = Name ssfSpan\<rparr>"

definition make_event :: "splunkSpanSink \<Rightarrow> SSFSpan \<Rightarrow> Event" where
  "make_event s ssfSpan =
     (let event = \<lparr>ev_time = None, ev_host = None, ev_sourcetype = None, ev_event = serialize ssfSpan\<rparr>;
          event = SetTime (StartTimestamp ssfSpan) event;
          event = SetHost (hostname s) event;
          event = SetSourceType (Service ssfSpan) event;
          event = SetTime (StartTimestamp ssfSpan) event
      in event)"

definition Ingest ::
  "(SSFSpan \<Rightarrow> error option) \<Rightarrow> bool \<Rightarrow> splunkSpanSink \<Rightarrow> SSFSpan \<Rightarrow>
     (error option \<times> splunkSpanSink \<times> Event option) go_result" where
  "Ingest ValidateTrace received s ssfSpan =
     (case ValidateTrace ssfSpan of
        Some err \<Rightarrow> Returns (Some err, s, None)
      | None \<Rightarrow>
          if \<not> Indicator ssfSpan \<and> spanSampleRate s = 0 then Panics ''integer divide by zero''
          else if \<not> Indicator ssfSpan \<and> go_rem (TraceId ssfSpan) (spanSampleRate s) \<noteq> 0 then
            Returns (None, s\<lparr>skippedSpans := skippedSpans s + 1\<rparr>, None)
          else
            (let event = make_event s ssfSpan in
             if received then Returns (None, s\<lparr>ingestedSpans := ingestedSpans s + 1\<rparr>, Some event)
             else if 0 <s ingestTimeout s then Returns (None, s\<lparr>droppedSpans := droppedSpans s + 1\<rparr>, None)
             else Blocks))"

subsection \<open>makeHTTPRequest\<close>

text \<open>
  The outcome of \<open>httpClient.Do(req)\<close> is an input: an error, which is a \<open>*url.Error\<close> with
  the value of its \<open>Timeout()\<close> or any other error, or a response with its status code and
  body. The JSON decoder of the body is a parameter.

  Modelled from the spec: the \<open>Response\<close> struct of the HEC client, with the text, the code
  and the optional number of the invalid event (hec.go is not among the sources).

  The function returns the samples handed to \<open>metrics.Report\<close> and the log entries
  written. The deferred calls run on every return: the timing sample is added last, with
  the elapsed time, which is an input as well.
\<close>

datatype do_error = url_Error bool | other_error

record http_Response =
  StatusCode :: go_int
  Body :: string

record Response =
  Text :: string
  Code :: go_int
  InvalidEventNumber :: "go_int option"

definition StatusOK :: go_int where
  "StatusOK = 200"

definition StatusInternalServerError :: go_int where
  "StatusInternalServerError = 500"

definition StatusServiceUnavailable :: go_int where
  "StatusServiceUnavailable = 503"

definition failure_sample :: "string \<Rightarrow> go_int \<Rightarrow> SSFSample" where
  "failure_sample cause statusCode =
     Count failureMetric (float32 1) [(''cause'', cause), (''status_code'', Itoa statusCode)]"

definition makeHTTPRequest ::
  "(string \<Rightarrow> error + Response) \<Rightarrow> Duration \<Rightarrow> do_error + http_Response \<Rightarrow> SSFSample list \<times> log_entry list" where
  "makeHTTPRequest decode elapsed result =
     (let timing = Timing timingMetric elapsed Nanosecond [] in
      case result of
        Inl (url_Error True) \<Rightarrow>
          ([Count failureMetric (float32 1) [(''cause'', ''submission_timeout'')], timing], [])
      | Inl _ \<Rightarrow>
          ([Count failureMetric (float32 1) [(''cause'', ''execution'')], timing], [])
      | Inr resp \<Rightarrow>
          if StatusCode resp = StatusOK then
            ([Count successMetric (float32 1) [], timing], [])
          else if StatusCode resp = StatusInternalServerError then
            ([failure_sample ''internal_server_error'' 8, timing], [])
          else if StatusCode resp = StatusServiceUnavailable then
            ([failure_sample ''service_unavailable'' 9, timing], [])
          else
            (case decode (Body resp) of
               Inl err \<Rightarrow>
                 ([timing],
                  [\<lparr>entry_level = WarnLevel,
                    entry_message = ''Could not parse response from splunk HEC'',
                    entry_fields = [(''error'', error_value err), (''http_status_code'', int_value (StatusCode resp))]\<rparr>])
             | Inr parsed \<Rightarrow>
                 ([failure_sample ''error'' (Code parsed), timing],
                  [\<lparr>entry_level = ErrorLevel,
                    entry_message = ''Error response from Splunk HEC'',
                    entry_fields =
                      [(''http_status_code'', int_value (StatusCode resp)),
                       (''hec_status_code'', int_value (Code parsed)),
                       (''hec_response_text'', string_value (Text parsed)),
                       (''event_number'', int_ptr_value (InvalidEventNumber parsed))]\<rparr>])))"

text \<open>The outcome samples of a request: the success and failure counters.\<close>

fun is_outcome :: "SSFSample \<Rightarrow> bool" where
  "is_outcome (Count m v tags) = (m = successMetric \<or> m = failureMetric)"
| "is_outcome (Timing m d r tags) = False"

subsection \<open>The sampling rule in the words of the specification\<close>

text \<open>
  A span is admitted if its indicator flag is true or its trace id modulo the sample rate
  \<open>R\<close> is zero, on mathematical integers.
\<close>

definition spec_admitted :: "int \<Rightarrow> bool \<Rightarrow> int \<Rightarrow> bool" where
  "spec_admitted R indicator trace_id = (indicator \<or> trace_id mod R = 0)"

subsection \<open>Inputs of the examples\<close>

text \<open>
  Modelled from the spec: \<open>newHecClient\<close> on an endpoint URL and a token that it accepts
  (hec.go is not among the sources).
\<close>

definition newHecClient_ok :: "string \<Rightarrow> string \<Rightarrow> error + hecClient" where
  "newHecClient_ok server token = Inr \<lparr>hec_server = server, hec_token = token\<rparr>"

text \<open>
  Modelled from the spec: \<open>protocol.ValidateTrace\<close> (package protocol is not among the
  sources). The data model of the spec requires of a span that its duration, end minus
  start, is not negative; a span that breaks this is rejected with an error.
\<close>

definition ValidateTrace_spec :: "SSFSpan \<Rightarrow> error option" where
  "ValidateTrace_spec ssfSpan =
     (if EndTimestamp ssfSpan - StartTimestamp ssfSpan <s 0 then Some (Err ''invalid trace'') else None)"

text \<open>
  A sink with an ingest timeout of 1 ms, batches of 10, the workers argument 2 and the
  sample rate 3, and two spans: a well-formed one of trace 6, and one that ends before
  it starts.
\<close>

definition example_sink :: splunkSpanSink where
  "example_sink =
     projr (NewSplunkSpanSink newHecClient_ok ''https://hec.example.com:8088'' ''token'' ''localhost'' []
              (Logger 0) 1000000 0 10 2 3)"

definition example_span :: SSFSpan where
  "example_span =
     \<lparr>TraceId = 6, Id = 1, ParentId = 0, StartTimestamp = 1000, EndTimestamp = 2000, Error = False,
      Service = ''svc'', Tags = [], Indicator = False, Name = ''op''\<rparr>"

definition malformed_span :: SSFSpan where
  "malformed_span = example_span\<lparr>StartTimestamp := 2000, EndTimestamp := 1000\<rparr>"

definition example_event :: Event where
  "example_event = make_event example_sink example_span"

text \<open>
  The example sink after one span was ingested, started, and the event received and
  encoded by its submitter.
\<close>

definition example_runtime :: runtime where
  "example_runtime =
     deliver 0 example_event None None (Start (trace_Client 0) (example_sink\<lparr>ingestedSpans := 1\<rparr>))"


text \<open>The example run, when two spans were dropped and three skipped besides.\<close>

definition example_runtime_counted :: runtime where
  "example_runtime_counted =
     example_runtime\<lparr>sss := (sss example_runtime)\<lparr>droppedSpans := 2, skippedSpans := 3\<rparr>\<rparr>"

text \<open>
  A decoder for the examples: it reads one well-formed HEC response body and fails on
  every other body, as \<open>json.Decoder\<close> does on an empty one.
\<close>

definition decode_example :: "string \<Rightarrow> error + Response" where
  "decode_example b =
     (if b = ''{\"text\":\"Invalid token\",\"code\":4}''
      then Inr \<lparr>Text = ''Invalid token'', Code = 4, InvalidEventNumber = None\<rparr>
      else Inl (Err ''EOF''))"

section \<open>Properties\<close>

subsection \<open>Go's remainder\<close>

lemma smod_eq_0_iff: "(k smod l = 0) = (k mod l = 0)" for k l :: int
proof -
  have "(k smod l = 0) = (\<bar>k\<bar> mod \<bar>l\<bar> = 0)"
    by (cases "k = 0") (simp_all add: signed_modulo_int_def sgn_if)
  also have "\<dots> = (\<bar>l\<bar> dvd \<bar>k\<bar>)" by (simp add: dvd_eq_mod_eq_0)
  also have "\<dots> = (l dvd k)" by simp
  also have "\<dots> = (k mod l = 0)" by (simp add: dvd_eq_mod_eq_0)
  finally show ?thesis .
qed

lemma smod_abs_less: "l \<noteq> 0 \<Longrightarrow> \<bar>k smod l\<bar> < \<bar>l\<bar>" for k l :: int
proof -
  assume l: "l \<noteq> 0"
  then have nn: "0 \<le> \<bar>k\<bar> mod \<bar>l\<bar>" by simp
  have "\<bar>k smod l\<bar> = \<bar>sgn k\<bar> * (\<bar>k\<bar> mod \<bar>l\<bar>)"
    using nn by (simp add: signed_modulo_int_def abs_mult)
  also have "\<dots> \<le> \<bar>k\<bar> mod \<bar>l\<bar>" using nn by (simp add: sgn_if)
  also have "\<dots> < \<bar>l\<bar>" using l by simp
  finally show ?thesis .
qed

text \<open>
  The truncated remainder of the code and the floored remainder of the specification are
  zero on the same operands: both say that the divisor divides the dividend.
\<close>

lemma go_rem_eq_0_iff: "b \<noteq> 0 \<Longrightarrow> (go_rem a b = 0) = (sint a mod sint b = 0)"
proof -
  assume b: "b \<noteq> 0"
  then have nz: "sint b \<noteq> 0" by (simp add: signed_eq_0_iff)
  have bb: "\<bar>sint b\<bar> \<le> 2 ^ 63"
    using sint_ge [of b] sint_lt [of b] by (simp add: abs_if)
  have lt: "\<bar>sint a smod sint b\<bar> < 2 ^ 63"
    using smod_abs_less [OF nz, of "sint a"] bb by linarith
  have "(go_rem a b = 0) = (sint a smod sint b = 0)"
    unfolding go_rem_def using lt
    by (auto simp add: word_of_int_eq_0_iff abs_if split: if_splits dest: zdvd_imp_le)
  then show ?thesis by (simp add: smod_eq_0_iff)
qed

lemma go_rem_1: "go_rem a 1 = 0"
  by (simp add: go_rem_def signed_modulo_int_def)

subsection \<open>The constructor\<close>

lemma New_spanSampleRate:
  "NewSplunkSpanSink newHecClient server token localHostname validateServerName lg it st bs w r = Inr s
   \<Longrightarrow> spanSampleRate s = (if r <s 1 then 1 else r)"
  by (auto simp add: NewSplunkSpanSink_def Let_def split: sum.splits)

lemma sle_1_nonzero: "(1::int64) \<le>s x \<Longrightarrow> x \<noteq> 0"
  by (auto simp add: word_sle_eq)

lemma not_sless_1: "\<not> r <s (1::int64) \<Longrightarrow> 1 \<le>s r"
  by (simp add: word_sle_eq word_sless_alt)

lemma example_sink_eq:
  "NewSplunkSpanSink newHecClient_ok ''https://hec.example.com:8088'' ''token'' ''localhost'' []
     (Logger 0) 1000000 0 10 2 3 = Inr example_sink"
  by (simp add: example_sink_def NewSplunkSpanSink_def newHecClient_ok_def)

lemma unclamped_sink_eq:
  "NewSplunkSpanSink newHecClient_ok ''https://hec.example.com:8088'' ''token'' ''localhost'' []
     (Logger 0) 1000000 0 10 2 0 = Inr (example_sink\<lparr>spanSampleRate := 1\<rparr>)"
  by (simp add: example_sink_def NewSplunkSpanSink_def newHecClient_ok_def word_sless_alt)

lemma example_span_valid: "ValidateTrace_spec example_span = None"
  by (simp add: ValidateTrace_spec_def example_span_def word_sless_alt)

text \<open>
  C10. \<open>NewSplunkSpanSink\<close> stores the sample rate argument, raised to 1 when it is less
  than 1. The stored rate is therefore at least 1 and not zero, so on every sink with this
  rate \<open>Ingest\<close> never panics with a division by zero; and when the argument was less than
  1, so that the rate is 1, every span that passes validation takes the send path: it is
  never counted as skipped.
\<close>

theorem sample_rate_clamped:
  assumes "NewSplunkSpanSink newHecClient server token localHostname validateServerName lg it st bs w r = Inr s"
  shows "spanSampleRate s = (if r <s 1 then 1 else r) \<and> 1 \<le>s spanSampleRate s \<and>
    (\<forall>t. spanSampleRate t = spanSampleRate s \<longrightarrow>
       (\<forall>V received ssfSpan m. Ingest V received t ssfSpan \<noteq> Panics m) \<and>
       (r <s 1 \<longrightarrow> (\<forall>V received ssfSpan. V ssfSpan = None \<longrightarrow>
          Ingest V received t ssfSpan =
            (if received then Returns (None, t\<lparr>ingestedSpans := ingestedSpans t + 1\<rparr>, Some (make_event t ssfSpan))
             else if 0 <s ingestTimeout t then Returns (None, t\<lparr>droppedSpans := droppedSpans t + 1\<rparr>, None)
             else Blocks))))"
proof -
  have rate: "spanSampleRate s = (if r <s 1 then 1 else r)"
    using assms by (rule New_spanSampleRate)
  then have ge: "1 \<le>s spanSampleRate s"
    by (simp add: not_sless_1)
  then have nz: "spanSampleRate s \<noteq> 0" by (rule sle_1_nonzero)
  have nopanic: "Ingest V received t ssfSpan \<noteq> Panics m"
    if "spanSampleRate t = spanSampleRate s" for t V received ssfSpan m
    using that nz by (simp add: Ingest_def Let_def split: option.splits)
  have all: "Ingest V received t ssfSpan =
            (if received then Returns (None, t\<lparr>ingestedSpans := ingestedSpans t + 1\<rparr>, Some (make_event t ssfSpan))
             else if 0 <s ingestTimeout t then Returns (None, t\<lparr>droppedSpans := droppedSpans t + 1\<rparr>, None)
             else Blocks)"
    if "spanSampleRate t = spanSampleRate s" "r <s 1" "V ssfSpan = None" for t V received ssfSpan
    using that rate by (simp add: Ingest_def Let_def go_rem_1)
  show ?thesis using rate ge nopanic all by blast
qed

theorem sample_rate_clamped_witness:
  "NewSplunkSpanSink newHecClient_ok ''https://hec.example.com:8088'' ''token'' ''localhost'' []
     (Logger 0) 1000000 0 10 2 0 = Inr (example_sink\<lparr>spanSampleRate := 1\<rparr>) \<and>
   (0::int64) <s 1 \<and> ValidateTrace_spec example_span = None \<and>
   spanSampleRate (example_sink\<lparr>spanSampleRate := 1\<rparr>) = 1 \<and>
   Ingest ValidateTrace_spec True (example_sink\<lparr>spanSampleRate := 1\<rparr>) example_span \<noteq> Panics ''integer divide by zero'' \<and>
   Ingest ValidateTrace_spec True (example_sink\<lparr>spanSampleRate := 1\<rparr>) example_span =
     Returns (None, example_sink\<lparr>spanSampleRate := 1, ingestedSpans := 1\<rparr>,
              Some (make_event (example_sink\<lparr>spanSampleRate := 1\<rparr>) example_span))"
proof -
  have z: "ingestedSpans example_sink = 0"
    by (simp add: example_sink_def NewSplunkSpanSink_def newHecClient_ok_def)
  show ?thesis
    using sample_rate_clamped [OF unclamped_sink_eq] example_span_valid z unclamped_sink_eq
    by (simp add: word_sless_alt)
qed

subsection \<open>Ingest\<close>

lemma dropped_neq_skipped:
  "s\<lparr>droppedSpans := d\<rparr> \<noteq> s\<lparr>skippedSpans := skippedSpans s + 1\<rparr>"
proof
  assume "s\<lparr>droppedSpans := d\<rparr> = s\<lparr>skippedSpans := skippedSpans s + 1\<rparr>"
  then have "skippedSpans (s\<lparr>droppedSpans := d\<rparr>) = skippedSpans (s\<lparr>skippedSpans := skippedSpans s + 1\<rparr>)"
    by (rule arg_cong)
  then show False by simp
qed

lemma Ingest_valid:
  assumes "V ssfSpan = None" "spanSampleRate s \<noteq> 0"
  shows "Ingest V received s ssfSpan =
     (if spec_admitted (sint (spanSampleRate s)) (Indicator ssfSpan) (sint (TraceId ssfSpan))
      then (if received then Returns (None, s\<lparr>ingestedSpans := ingestedSpans s + 1\<rparr>, Some (make_event s ssfSpan))
            else if 0 <s ingestTimeout s then Returns (None, s\<lparr>droppedSpans := droppedSpans s + 1\<rparr>, None)
            else Blocks)
      else Returns (None, s\<lparr>skippedSpans := skippedSpans s + 1\<rparr>, None))"
  using assms by (simp add: Ingest_def Let_def spec_admitted_def go_rem_eq_0_iff)

lemma Ingest_skipped_iff:
  assumes "V ssfSpan = None" "spanSampleRate s \<noteq> 0"
  shows "(Ingest V received s ssfSpan = Returns (None, s\<lparr>skippedSpans := skippedSpans s + 1\<rparr>, None)) =
     (\<not> spec_admitted (sint (spanSampleRate s)) (Indicator ssfSpan) (sint (TraceId ssfSpan)))"
  using assms by (simp add: Ingest_valid dropped_neq_skipped)

lemma example_sink_fields:
  "spanSampleRate example_sink = 3" "ingestTimeout example_sink = 1000000"
  "ingestedSpans example_sink = 0" "droppedSpans example_sink = 0" "skippedSpans example_sink = 0"
  "workers example_sink = 0" "batchSize example_sink = 10"
  "MaxIdleConnsPerHost (Transport (httpClient example_sink)) = 2"
  by (simp_all add: example_sink_def NewSplunkSpanSink_def newHecClient_ok_def word_sless_alt)

text \<open>
  C2. On a sink whose sample rate \<open>R\<close> is not zero, and for a span that passes validation,
  \<open>Ingest\<close> takes the send path if and only if the indicator flag is true or the trace id
  modulo \<open>R\<close> is 0; otherwise it adds 1 to \<open>skippedSpans\<close>, sends nothing and returns a
  nil error. The decision depends on the indicator flag and the trace id alone: two valid
  spans that agree on both are both skipped or both not.
\<close>

theorem sampling_decision:
  assumes "V ssfSpan = None" and "spanSampleRate s \<noteq> 0"
  shows "Ingest V received s ssfSpan =
     (if spec_admitted (sint (spanSampleRate s)) (Indicator ssfSpan) (sint (TraceId ssfSpan))
      then (if received then Returns (None, s\<lparr>ingestedSpans := ingestedSpans s + 1\<rparr>, Some (make_event s ssfSpan))
            else if 0 <s ingestTimeout s then Returns (None, s\<lparr>droppedSpans := droppedSpans s + 1\<rparr>, None)
            else Blocks)
      else Returns (None, s\<lparr>skippedSpans := skippedSpans s + 1\<rparr>, None)) \<and>
    (\<forall>ssfSpan' received'.
       V ssfSpan' = None \<and> TraceId ssfSpan' = TraceId ssfSpan \<and> Indicator ssfSpan' = Indicator ssfSpan \<longrightarrow>
       (Ingest V received' s ssfSpan' = Returns (None, s\<lparr>skippedSpans := skippedSpans s + 1\<rparr>, None)) =
       (Ingest V received s ssfSpan = Returns (None, s\<lparr>skippedSpans := skippedSpans s + 1\<rparr>, None)))"
proof (intro conjI allI impI)
  show "Ingest V received s ssfSpan =
     (if spec_admitted (sint (spanSampleRate s)) (Indicator ssfSpan) (sint (TraceId ssfSpan))
      then (if received then Returns (None, s\<lparr>ingestedSpans := ingestedSpans s + 1\<rparr>, Some (make_event s ssfSpan))
            else if 0 <s ingestTimeout s then Returns (None, s\<lparr>droppedSpans := droppedSpans s + 1\<rparr>, None)
            else Blocks)
      else Returns (None, s\<lparr>skippedSpans := skippedSpans s + 1\<rparr>, None))"
    using assms by (rule Ingest_valid)
next
  fix ssfSpan' received'
  assume a: "V ssfSpan' = None \<and> TraceId ssfSpan' = TraceId ssfSpan \<and> Indicator ssfSpan' = Indicator ssfSpan"
  then have v: "V ssfSpan' = None" by simp
  show "(Ingest V received' s ssfSpan' = Returns (None, s\<lparr>skippedSpans := skippedSpans s + 1\<rparr>, None)) =
       (Ingest V received s ssfSpan = Returns (None, s\<lparr>skippedSpans := skippedSpans s + 1\<rparr>, None))"
    using a assms by (simp add: Ingest_skipped_iff)
qed

theorem sampling_decision_witness:
  "ValidateTrace_spec example_span = None \<and> spanSampleRate example_sink \<noteq> 0 \<and>
   Ingest ValidateTrace_spec True example_sink example_span =
     Returns (None, example_sink\<lparr>ingestedSpans := 1\<rparr>, Some (make_event example_sink example_span))"
  using sampling_decision [of ValidateTrace_spec example_span example_sink True] example_span_valid
  by (simp add: example_sink_fields spec_admitted_def example_span_def)

text \<open>
  C3, as the code has it. \<open>Ingest\<close> returns an error exactly when \<open>ValidateTrace\<close> rejects
  the span: it then returns that error at once, counts nothing and sends nothing. For a
  span that passes validation every return is a nil error, and what happened is counted:
  a span rejected by the sampling adds 1 to \<open>skippedSpans\<close>; a span that passes the sampling
  adds 1 to \<open>ingestedSpans\<close> when a submitter receives it, and 1 to \<open>droppedSpans\<close> when none
  does before a positive \<open>ingestTimeout\<close> expires.
\<close>

theorem ingest_returns_validation_error:
  "(\<forall>e. V ssfSpan = Some e \<longrightarrow> Ingest V received s ssfSpan = Returns (Some e, s, None)) \<and>
   (V ssfSpan = None \<longrightarrow>
      (\<forall>err s' ev. Ingest V received s ssfSpan = Returns (err, s', ev) \<longrightarrow> err = None) \<and>
      (\<not> Indicator ssfSpan \<and> spanSampleRate s \<noteq> 0 \<and> go_rem (TraceId ssfSpan) (spanSampleRate s) \<noteq> 0 \<longrightarrow>
         Ingest V received s ssfSpan = Returns (None, s\<lparr>skippedSpans := skippedSpans s + 1\<rparr>, None)) \<and>
      (Indicator ssfSpan \<or> (spanSampleRate s \<noteq> 0 \<and> go_rem (TraceId ssfSpan) (spanSampleRate s) = 0) \<longrightarrow>
         Ingest V True s ssfSpan =
           Returns (None, s\<lparr>ingestedSpans := ingestedSpans s + 1\<rparr>, Some (make_event s ssfSpan)) \<and>
         (0 <s ingestTimeout s \<longrightarrow>
            Ingest V False s ssfSpan = Returns (None, s\<lparr>droppedSpans := droppedSpans s + 1\<rparr>, None))))"
proof -
  have 1: "\<forall>e. V ssfSpan = Some e \<longrightarrow> Ingest V received s ssfSpan = Returns (Some e, s, None)"
    by (simp add: Ingest_def)
  have 2: "\<forall>err s' ev. Ingest V received s ssfSpan = Returns (err, s', ev) \<longrightarrow> err = None"
    if "V ssfSpan = None"
    using that by (auto simp add: Ingest_def Let_def split: if_splits)
  have 3: "Ingest V received s ssfSpan = Returns (None, s\<lparr>skippedSpans := skippedSpans s + 1\<rparr>, None)"
    if "V ssfSpan = None"
      and "\<not> Indicator ssfSpan \<and> spanSampleRate s \<noteq> 0 \<and> go_rem (TraceId ssfSpan) (spanSampleRate s) \<noteq> 0"
    using that by (simp add: Ingest_def)
  have 4: "Ingest V True s ssfSpan =
           Returns (None, s\<lparr>ingestedSpans := ingestedSpans s + 1\<rparr>, Some (make_event s ssfSpan)) \<and>
         (0 <s ingestTimeout s \<longrightarrow>
            Ingest V False s ssfSpan = Returns (None, s\<lparr>droppedSpans := droppedSpans s + 1\<rparr>, None))"
    if "V ssfSpan = None"
      and "Indicator ssfSpan \<or> (spanSampleRate s \<noteq> 0 \<and> go_rem (TraceId ssfSpan) (spanSampleRate s) = 0)"
    using that by (auto simp add: Ingest_def Let_def)
  show ?thesis using 1 2 3 4 by blast
qed

theorem ingest_returns_validation_error_witness:
  "ValidateTrace_spec malformed_span = Some (Err ''invalid trace'') \<and>
   Ingest ValidateTrace_spec True example_sink malformed_span =
     Returns (Some (Err ''invalid trace''), example_sink, None) \<and>
   ValidateTrace_spec (example_span\<lparr>TraceId := 7\<rparr>) = None \<and>
   \<not> Indicator (example_span\<lparr>TraceId := 7\<rparr>) \<and> spanSampleRate example_sink \<noteq> 0 \<and>
   go_rem (TraceId (example_span\<lparr>TraceId := 7\<rparr>)) (spanSampleRate example_sink) \<noteq> 0 \<and>
   Ingest ValidateTrace_spec True example_sink (example_span\<lparr>TraceId := 7\<rparr>) =
     Returns (None, example_sink\<lparr>skippedSpans := 1\<rparr>, None) \<and>
   ValidateTrace_spec example_span = None \<and>
   go_rem (TraceId example_span) (spanSampleRate example_sink) = 0 \<and> 0 <s ingestTimeout example_sink \<and>
   Ingest ValidateTrace_spec True example_sink example_span =
     Returns (None, example_sink\<lparr>ingestedSpans := 1\<rparr>, Some (make_event example_sink example_span)) \<and>
   Ingest ValidateTrace_spec False example_sink example_span =
     Returns (None, example_sink\<lparr>droppedSpans := 1\<rparr>, None)"
proof -
  have m: "ValidateTrace_spec malformed_span = Some (Err ''invalid trace'')"
    by (simp add: ValidateTrace_spec_def malformed_span_def example_span_def word_sless_alt)
  have v7: "ValidateTrace_spec (example_span\<lparr>TraceId := 7\<rparr>) = None"
    by (simp add: ValidateTrace_spec_def example_span_def word_sless_alt)
  have r7: "go_rem (TraceId (example_span\<lparr>TraceId := 7\<rparr>)) (spanSampleRate example_sink) \<noteq> 0"
    by (simp add: go_rem_eq_0_iff example_sink_fields)
  have r6: "go_rem (TraceId example_span) (spanSampleRate example_sink) = 0"
    by (simp add: go_rem_eq_0_iff example_sink_fields example_span_def)
  have i: "\<not> Indicator (example_span\<lparr>TraceId := 7\<rparr>)" "\<not> Indicator example_span"
    by (simp_all add: example_span_def)
  show ?thesis
    using ingest_returns_validation_error [of ValidateTrace_spec malformed_span True example_sink]
      ingest_returns_validation_error [of ValidateTrace_spec "example_span\<lparr>TraceId := 7\<rparr>" True example_sink]
      ingest_returns_validation_error [of ValidateTrace_spec example_span True example_sink]
      m v7 r7 r6 i example_span_valid
    by (simp add: example_sink_fields word_sless_alt)
qed

text \<open>
  The claim C3 as stated fails: the span that ends before it starts is rejected by the
  validation, and \<open>Ingest\<close> hands the error to its caller.
\<close>

theorem ingest_error_counterexample:
  "Ingest ValidateTrace_spec True example_sink malformed_span =
     Returns (Some (Err ''invalid trace''), example_sink, None)"
  by (simp add: Ingest_def ValidateTrace_spec_def malformed_span_def example_span_def word_sless_alt)

text \<open>
  C4. For a valid span that passes the sampling, when no submitter receives the event:
  with a positive \<open>ingestTimeout\<close>, \<open>Ingest\<close> adds exactly 1 to \<open>droppedSpans\<close>, hands
  no event on and returns a nil error; with an \<open>ingestTimeout\<close> that is not positive the
  send has no bound and \<open>Ingest\<close> waits for a submitter. When a submitter receives the
  event, \<open>Ingest\<close> adds 1 to \<open>ingestedSpans\<close> and returns.
\<close>

theorem ingest_timeout_drops:
  assumes "V ssfSpan = None"
    and "Indicator ssfSpan \<or> (spanSampleRate s \<noteq> 0 \<and> go_rem (TraceId ssfSpan) (spanSampleRate s) = 0)"
  shows "(0 <s ingestTimeout s \<longrightarrow>
            Ingest V False s ssfSpan = Returns (None, s\<lparr>droppedSpans := droppedSpans s + 1\<rparr>, None)) \<and>
         (\<not> 0 <s ingestTimeout s \<longrightarrow> Ingest V False s ssfSpan = Blocks) \<and>
         Ingest V True s ssfSpan = Returns (None, s\<lparr>ingestedSpans := ingestedSpans s + 1\<rparr>, Some (make_event s ssfSpan))"
  using assms by (auto simp add: Ingest_def Let_def)

theorem ingest_timeout_drops_witness:
  "ValidateTrace_spec example_span = None \<and>
   (Indicator example_span \<or> (spanSampleRate example_sink \<noteq> 0 \<and> go_rem (TraceId example_span) (spanSampleRate example_sink) = 0)) \<and>
   0 <s ingestTimeout example_sink \<and>
   Ingest ValidateTrace_spec False example_sink example_span = Returns (None, example_sink\<lparr>droppedSpans := 1\<rparr>, None) \<and>
   \<not> 0 <s ingestTimeout (example_sink\<lparr>ingestTimeout := 0\<rparr>) \<and>
   Ingest ValidateTrace_spec False (example_sink\<lparr>ingestTimeout := 0\<rparr>) example_span = Blocks"
proof -
  have r: "go_rem (TraceId example_span) 3 = 0"
    by (simp add: go_rem_eq_0_iff example_span_def)
  have a: "Indicator example_span \<or> (spanSampleRate example_sink \<noteq> 0 \<and> go_rem (TraceId example_span) (spanSampleRate example_sink) = 0)"
    by (simp add: example_sink_fields r)
  have a0: "Indicator example_span \<or> (spanSampleRate (example_sink\<lparr>ingestTimeout := 0\<rparr>) \<noteq> 0 \<and>
      go_rem (TraceId example_span) (spanSampleRate (example_sink\<lparr>ingestTimeout := 0\<rparr>)) = 0)"
    by (simp add: example_sink_fields r)
  show ?thesis
    using ingest_timeout_drops [of ValidateTrace_spec example_span example_sink]
      ingest_timeout_drops [of ValidateTrace_spec example_span "example_sink\<lparr>ingestTimeout := 0\<rparr>"]
      example_span_valid a a0
    by (simp add: example_sink_fields word_sless_alt)
qed

subsection \<open>Start\<close>

text \<open>
  C1 at the workers argument 2. The constructor sizes the idle connection pool with the
  argument, but its struct literal does not store it in the field \<open>workers\<close>, which stays
  zero; \<open>Start\<close> reads the field and spawns one submitter, with one sync channel.
\<close>

theorem start_spawns_one_submitter:
  "NewSplunkSpanSink newHecClient_ok ''https://hec.example.com:8088'' ''token'' ''localhost'' []
     (Logger 0) 1000000 0 10 2 3 = Inr example_sink \<and>
   MaxIdleConnsPerHost (Transport (httpClient example_sink)) = 2 \<and>
   workers example_sink = 0 \<and>
   length (goroutines (Start (trace_Client 0) example_sink)) = 1 \<and>
   length (sync (sss (Start (trace_Client 0) example_sink))) = 1"
  by (simp add: example_sink_eq example_sink_fields Start_def Let_def word_sless_alt)

subsection \<open>makeHTTPRequest\<close>

lemma Itoa_8: "Itoa 8 = ''8''"
  by (simp add: Itoa_def FormatInt_def format_nat.simps digit_char_def)

lemma Itoa_9: "Itoa 9 = ''9''"
  by (simp add: Itoa_def FormatInt_def format_nat.simps digit_char_def)

lemma Itoa_4: "Itoa 4 = ''4''"
  by (simp add: Itoa_def FormatInt_def format_nat.simps digit_char_def)

lemma metrics_distinct: "successMetric \<noteq> failureMetric" "timingMetric \<noteq> successMetric" "timingMetric \<noteq> failureMetric"
  by (simp_all add: successMetric_def failureMetric_def timingMetric_def)

lemma outcome_samples [simp]:
  "is_outcome (Count failureMetric v tags)" "is_outcome (Count successMetric v tags)"
  "is_outcome (failure_sample c n)"
  by (simp_all add: failure_sample_def)

text \<open>
  C6, as the code has it. \<open>makeHTTPRequest\<close> reports one outcome sample for every request
  but one kind: the success counter on status 200; the failure counter with the cause
  \<open>submission_timeout\<close> on a URL error that is a timeout and with the cause \<open>execution\<close> on
  any other error of the client; with \<open>internal_server_error\<close> and status code 8 on 500;
  with \<open>service_unavailable\<close> and status code 9 on 503; none of these reads the body or
  writes a log entry. On every other status the body is decoded. If that succeeds, the
  failure counter has the cause \<open>error\<close> and the decoded code, and one entry at error level
  carries the decoded code, the text and the event number. If the body does not decode,
  a warning is logged and no outcome sample is reported.
\<close>

theorem http_outcome_classified:
  fixes decode elapsed result
  defines "outcomes \<equiv> filter is_outcome (fst (makeHTTPRequest decode elapsed result))"
    and "entries \<equiv> snd (makeHTTPRequest decode elapsed result)"
  shows
   "(result = Inl (url_Error True) \<longrightarrow>
       outcomes = [Count failureMetric (float32 1) [(''cause'', ''submission_timeout'')]] \<and> entries = []) \<and>
    (\<forall>e. result = Inl e \<and> e \<noteq> url_Error True \<longrightarrow>
       outcomes = [Count failureMetric (float32 1) [(''cause'', ''execution'')]] \<and> entries = []) \<and>
    (\<forall>resp. result = Inr resp \<and> StatusCode resp = 200 \<longrightarrow>
       outcomes = [Count successMetric (float32 1) []] \<and> entries = []) \<and>
    (\<forall>resp. result = Inr resp \<and> StatusCode resp = 500 \<longrightarrow>
       outcomes = [Count failureMetric (float32 1) [(''cause'', ''internal_server_error''), (''status_code'', ''8'')]] \<and>
       entries = []) \<and>
    (\<forall>resp. result = Inr resp \<and> StatusCode resp = 503 \<longrightarrow>
       outcomes = [Count failureMetric (float32 1) [(''cause'', ''service_unavailable''), (''status_code'', ''9'')]] \<and>
       entries = []) \<and>
    (\<forall>resp parsed. result = Inr resp \<and> StatusCode resp \<notin> {200, 500, 503} \<and> decode (Body resp) = Inr parsed \<longrightarrow>
       outcomes = [Count failureMetric (float32 1) [(''cause'', ''error''), (''status_code'', Itoa (Code parsed))]] \<and>
       entries = [\<lparr>entry_level = ErrorLevel, entry_message = ''Error response from Splunk HEC'',
                   entry_fields = [(''http_status_code'', int_value (StatusCode resp)),
                                   (''hec_status_code'', int_value (Code parsed)),
                                   (''hec_response_text'', string_value (Text parsed)),
                                   (''event_number'', int_ptr_value (InvalidEventNumber parsed))]\<rparr>]) \<and>
    (\<forall>resp err. result = Inr resp \<and> StatusCode resp \<notin> {200, 500, 503} \<and> decode (Body resp) = Inl err \<longrightarrow>
       outcomes = [] \<and> map entry_level entries = [WarnLevel]) \<and>
    ((\<forall>resp. result = Inr resp \<longrightarrow> StatusCode resp \<in> {200, 500, 503}) \<longrightarrow>
       (\<forall>decode'. makeHTTPRequest decode' elapsed result = makeHTTPRequest decode elapsed result))"
proof -
  have 1: "result = Inl (url_Error True) \<longrightarrow>
       outcomes = [Count failureMetric (float32 1) [(''cause'', ''submission_timeout'')]] \<and> entries = []"
    by (simp add: outcomes_def entries_def makeHTTPRequest_def)
  have 2: "\<forall>e. result = Inl e \<and> e \<noteq> url_Error True \<longrightarrow>
       outcomes = [Count failureMetric (float32 1) [(''cause'', ''execution'')]] \<and> entries = []"
    by (auto simp add: outcomes_def entries_def makeHTTPRequest_def Let_def split: do_error.splits bool.splits)
  have 3: "\<forall>resp. result = Inr resp \<and> StatusCode resp = 200 \<longrightarrow>
       outcomes = [Count successMetric (float32 1) []] \<and> entries = []"
    by (simp add: outcomes_def entries_def makeHTTPRequest_def StatusOK_def)
  have 4: "\<forall>resp. result = Inr resp \<and> StatusCode resp = 500 \<longrightarrow>
       outcomes = [Count failureMetric (float32 1) [(''cause'', ''internal_server_error''), (''status_code'', ''8'')]] \<and>
       entries = []"
    by (simp add: outcomes_def entries_def makeHTTPRequest_def StatusOK_def StatusInternalServerError_def
        failure_sample_def Itoa_8)
  have 5: "\<forall>resp. result = Inr resp \<and> StatusCode resp = 503 \<longrightarrow>
       outcomes = [Count failureMetric (float32 1) [(''cause'', ''service_unavailable''), (''status_code'', ''9'')]] \<and>
       entries = []"
    by (simp add: outcomes_def entries_def makeHTTPRequest_def StatusOK_def StatusInternalServerError_def
        StatusServiceUnavailable_def failure_sample_def Itoa_9)
  have 6: "\<forall>resp parsed. result = Inr resp \<and> StatusCode resp \<notin> {200, 500, 503} \<and> decode (Body resp) = Inr parsed \<longrightarrow>
       outcomes = [Count failureMetric (float32 1) [(''cause'', ''error''), (''status_code'', Itoa (Code parsed))]] \<and>
       entries = [\<lparr>entry_level = ErrorLevel, entry_message = ''Error response from Splunk HEC'',
                   entry_fields = [(''http_status_code'', int_value (StatusCode resp)),
                                   (''hec_status_code'', int_value (Code parsed)),
                                   (''hec_response_text'', string_value (Text parsed)),
                                   (''event_number'', int_ptr_value (InvalidEventNumber parsed))]\<rparr>]"
    by (simp add: outcomes_def entries_def makeHTTPRequest_def StatusOK_def StatusInternalServerError_def
        StatusServiceUnavailable_def failure_sample_def)
  have 7: "\<forall>resp err. result = Inr resp \<and> StatusCode resp \<notin> {200, 500, 503} \<and> decode (Body resp) = Inl err \<longrightarrow>
       outcomes = [] \<and> map entry_level entries = [WarnLevel]"
    by (simp add: outcomes_def entries_def makeHTTPRequest_def StatusOK_def StatusInternalServerError_def
        StatusServiceUnavailable_def)
  have 8: "(\<forall>resp. result = Inr resp \<longrightarrow> StatusCode resp \<in> {200, 500, 503}) \<longrightarrow>
       (\<forall>decode'. makeHTTPRequest decode' elapsed result = makeHTTPRequest decode elapsed result)"
    by (cases result) (auto simp add: makeHTTPRequest_def StatusOK_def StatusInternalServerError_def
        StatusServiceUnavailable_def)
  show ?thesis using 1 2 3 4 5 6 7 8 by blast
qed

theorem http_outcome_classified_witness:
  "filter is_outcome (fst (makeHTTPRequest decode_example 5 (Inl (url_Error True)))) =
     [Count failureMetric (float32 1) [(''cause'', ''submission_timeout'')]] \<and>
   filter is_outcome (fst (makeHTTPRequest decode_example 5 (Inl other_error))) =
     [Count failureMetric (float32 1) [(''cause'', ''execution'')]] \<and>
   filter is_outcome (fst (makeHTTPRequest decode_example 5 (Inr \<lparr>StatusCode = 200, Body = []\<rparr>))) =
     [Count successMetric (float32 1) []] \<and>
   filter is_outcome (fst (makeHTTPRequest decode_example 5 (Inr \<lparr>StatusCode = 500, Body = []\<rparr>))) =
     [Count failureMetric (float32 1) [(''cause'', ''internal_server_error''), (''status_code'', ''8'')]] \<and>
   filter is_outcome (fst (makeHTTPRequest decode_example 5 (Inr \<lparr>StatusCode = 503, Body = []\<rparr>))) =
     [Count failureMetric (float32 1) [(''cause'', ''service_unavailable''), (''status_code'', ''9'')]] \<and>
   snd (makeHTTPRequest decode_example 5 (Inr \<lparr>StatusCode = 503, Body = []\<rparr>)) = [] \<and>
   filter is_outcome (fst (makeHTTPRequest decode_example 5
       (Inr \<lparr>StatusCode = 400, Body = ''{\"text\":\"Invalid token\",\"code\":4}''\<rparr>))) =
     [Count failureMetric (float32 1) [(''cause'', ''error''), (''status_code'', ''4'')]] \<and>
   map entry_level (snd (makeHTTPRequest decode_example 5
       (Inr \<lparr>StatusCode = 400, Body = ''{\"text\":\"Invalid token\",\"code\":4}''\<rparr>))) = [ErrorLevel] \<and>
   map entry_level (snd (makeHTTPRequest decode_example 5 (Inr \<lparr>StatusCode = 404, Body = []\<rparr>))) = [WarnLevel]"
  using http_outcome_classified [where decode = decode_example and elapsed = 5 and result = "Inl (url_Error True)"]
    http_outcome_classified [where decode = decode_example and elapsed = 5 and result = "Inl other_error"]
    http_outcome_classified [where decode = decode_example and elapsed = 5 and result = "Inr \<lparr>StatusCode = 200, Body = []\<rparr>"]
    http_outcome_classified [where decode = decode_example and elapsed = 5 and result = "Inr \<lparr>StatusCode = 500, Body = []\<rparr>"]
    http_outcome_classified [where decode = decode_example and elapsed = 5 and result = "Inr \<lparr>StatusCode = 503, Body = []\<rparr>"]
    http_outcome_classified [where decode = decode_example and elapsed = 5
      and result = "Inr \<lparr>StatusCode = 400, Body = ''{\"text\":\"Invalid token\",\"code\":4}''\<rparr>"]
    http_outcome_classified [where decode = decode_example and elapsed = 5 and result = "Inr \<lparr>StatusCode = 404, Body = []\<rparr>"]
  by (simp add: decode_example_def Itoa_4)

text \<open>
  The claim C6 as stated fails: on a status 404 with an empty body, which does not decode,
  the function logs a warning and reports the timing sample only, no outcome sample.
\<close>

theorem http_outcome_counterexample:
  "makeHTTPRequest decode_example 5 (Inr \<lparr>StatusCode = 404, Body = []\<rparr>) =
     ([Timing timingMetric 5 Nanosecond []],
      [\<lparr>entry_level = WarnLevel, entry_message = ''Could not parse response from splunk HEC'',
        entry_fields = [(''error'', error_value (Err ''EOF'')), (''http_status_code'', int_value 404)]\<rparr>]) \<and>
   filter is_outcome (fst (makeHTTPRequest decode_example 5 (Inr \<lparr>StatusCode = 404, Body = []\<rparr>))) = []"
  by (simp add: makeHTTPRequest_def decode_example_def StatusOK_def StatusInternalServerError_def
      StatusServiceUnavailable_def)

subsection \<open>The submitter\<close>




lemma submitter_run_Nil [simp]: "submitter_run bs s [] = s"
  by (simp add: submitter_run_def)

lemma submitter_run_Cons [simp]:
  "submitter_run bs s (c # cs) = submitter_run bs (submitter_step bs s c) cs"
  by (simp add: submitter_run_def)









lemma sync_fresh_posted: "fresh s \<Longrightarrow> posted (submitter_step bs s (SyncRecv True)) = posted s"
  by (simp add: fresh_def Let_def hecReq_Close_def next_batch_def)









subsection \<open>What a submitter has written\<close>

lemma sync_step:
  "\<not> exited s \<Longrightarrow>
   posted (submitter_step bs s (SyncRecv ok)) = started_requests s \<and>
   fresh (submitter_step bs s (SyncRecv True)) \<and>
   exited (submitter_step bs s (SyncRecv False)) \<and>
   \<not> req (submitter_step bs s (SyncRecv ok)) \<and> body (submitter_step bs s (SyncRecv ok)) = []"
  by (simp add: Let_def hecReq_Close_def next_batch_def started_requests_def fresh_def)

lemma exited_step: "exited s \<Longrightarrow> submitter_step bs s c = s"
  by (cases c) simp_all

lemma step_exited: "c \<noteq> SyncRecv False \<Longrightarrow> exited (submitter_step bs s c) = exited s"
  by (cases c) (auto simp add: Let_def hecReq_Close_def next_batch_def warn_def split: option.splits)



declare submitter_step.simps [simp del]




subsection \<open>Sync\<close>

lemma sync_send_Returns:
  "sync_send i rt = Returns rt' \<Longrightarrow>
   sync (sss rt) ! i = Open \<and> i < length (goroutines rt) \<and> \<not> exited (goroutines rt ! i) \<and>
   rt' = rt\<lparr>sss := (sss rt)\<lparr>synced := synced (sss rt) - 1\<rparr>,
           goroutines := (goroutines rt)[i := submitter_step (batchSize (sss rt)) (goroutines rt ! i) (SyncRecv True)]\<rparr>"
  by (cases "sync (sss rt) ! i") (auto simp add: sync_send_def split: if_splits)

text \<open>
  The loop of \<open>Sync\<close> over distinct channels: when it returns, every channel was open,
  every submitter signalled was running and has taken the signal, the others are
  untouched, and the wait group has gone down by the number of signals.
\<close>

lemma sync_loop_Returns:
  "sync_loop js rt = Returns rt' \<Longrightarrow> distinct js \<Longrightarrow>
   sss rt' = (sss rt)\<lparr>synced := synced (sss rt) - int (length js)\<rparr> \<and>
   length (goroutines rt') = length (goroutines rt) \<and>
   (\<forall>i. i \<notin> set js \<longrightarrow> goroutines rt' ! i = goroutines rt ! i) \<and>
   (\<forall>i \<in> set js. sync (sss rt) ! i = Open \<and> i < length (goroutines rt) \<and> \<not> exited (goroutines rt ! i) \<and>
      goroutines rt' ! i = submitter_step (batchSize (sss rt)) (goroutines rt ! i) (SyncRecv True))"
proof (induction js arbitrary: rt)
  case Nil
  then show ?case by simp
next
  case (Cons j js)
  from Cons.prems(1) obtain rt1 where s1: "sync_send j rt = Returns rt1" and l1: "sync_loop js rt1 = Returns rt'"
    by (auto split: go_result.splits)
  note a = sync_send_Returns [OF s1]
  from Cons.prems(2) have d: "distinct js" and nj: "j \<notin> set js" by simp_all
  note b = Cons.IH [OF l1 d]
  have sss1: "sss rt1 = (sss rt)\<lparr>synced := synced (sss rt) - 1\<rparr>"
    and g1: "goroutines rt1 = (goroutines rt)[j := submitter_step (batchSize (sss rt)) (goroutines rt ! j) (SyncRecv True)]"
    using a by simp_all
  have 1: "sss rt' = (sss rt)\<lparr>synced := synced (sss rt) - int (length (j # js))\<rparr>"
    using b sss1 by simp
  have 2: "length (goroutines rt') = length (goroutines rt)"
    using b g1 by simp
  have 3: "\<forall>i. i \<notin> set (j # js) \<longrightarrow> goroutines rt' ! i = goroutines rt ! i"
    using b g1 by simp
  have 4: "sync (sss rt) ! i = Open \<and> i < length (goroutines rt) \<and> \<not> exited (goroutines rt ! i) \<and>
      goroutines rt' ! i = submitter_step (batchSize (sss rt)) (goroutines rt ! i) (SyncRecv True)"
    if "i \<in> set (j # js)" for i
  proof (cases "i = j")
    case True
    from b nj have "goroutines rt' ! j = goroutines rt1 ! j" by blast
    then show ?thesis using True a g1 by simp
  next
    case False
    with that have ij: "i \<in> set js" by simp
    from b ij have bi: "sync (sss rt1) ! i = Open \<and> i < length (goroutines rt1) \<and>
        \<not> exited (goroutines rt1 ! i) \<and>
        goroutines rt' ! i = submitter_step (batchSize (sss rt1)) (goroutines rt1 ! i) (SyncRecv True)"
      by blast
    have "goroutines rt1 ! i = goroutines rt ! i" using g1 False by simp
    then show ?thesis using bi sss1 g1 by simp
  qed
  show ?case using 1 2 3 4 by blast
qed

lemma sync_loop_returns:
  "\<forall>i \<in> set js. sync (sss rt) ! i = Open \<and> i < length (goroutines rt) \<and> \<not> exited (goroutines rt ! i) \<Longrightarrow>
   int (length js) \<le> synced (sss rt) \<Longrightarrow>
   \<exists>rt'. sync_loop js rt = Returns rt'"
proof (induction js arbitrary: rt)
  case Nil
  then show ?case by simp
next
  case (Cons j js)
  let ?rt1 = "rt\<lparr>sss := (sss rt)\<lparr>synced := synced (sss rt) - 1\<rparr>,
           goroutines := (goroutines rt)[j := submitter_step (batchSize (sss rt)) (goroutines rt ! j) (SyncRecv True)]\<rparr>"
  have s: "sync_send j rt = Returns ?rt1"
    using Cons.prems by (simp add: sync_send_def)
  have "\<forall>i \<in> set js. sync (sss ?rt1) ! i = Open \<and> i < length (goroutines ?rt1) \<and> \<not> exited (goroutines ?rt1 ! i)"
    using Cons.prems(1) by (auto simp add: nth_list_update step_exited)
  moreover have "int (length js) \<le> synced (sss ?rt1)"
    using Cons.prems(2) by simp
  ultimately obtain rt' where "sync_loop js ?rt1 = Returns rt'"
    using Cons.IH [of ?rt1] by blast
  then show ?case using s by simp
qed

lemma Sync_Returns:
  assumes "Sync rt = Returns rt'"
  shows "sss rt' = sss rt \<and> synced (sss rt) = 0 \<and>
    length (goroutines rt') = length (goroutines rt) \<and>
    (\<forall>i. \<not> i < length (sync (sss rt)) \<longrightarrow> goroutines rt' ! i = goroutines rt ! i) \<and>
    (\<forall>i < length (sync (sss rt)). sync (sss rt) ! i = Open \<and> i < length (goroutines rt) \<and>
       \<not> exited (goroutines rt ! i) \<and>
       goroutines rt' ! i = submitter_step (batchSize (sss rt)) (goroutines rt ! i) (SyncRecv True))"
proof -
  let ?n = "length (sync (sss rt))"
  let ?rt0 = "rt\<lparr>sss := (sss rt)\<lparr>synced := synced (sss rt) + int ?n\<rparr>\<rparr>"
  from assms have l: "sync_loop [0..<?n] ?rt0 = Returns rt'" and z: "synced (sss rt') = 0"
    by (auto simp add: Sync_def Let_def split: go_result.splits if_splits)
  note a = sync_loop_Returns [OF l distinct_upt]
  have s: "sss rt' = (sss rt)\<lparr>synced := synced (sss rt)\<rparr>" using a by simp
  then have 1: "sss rt' = sss rt" by simp
  then have 2: "synced (sss rt) = 0" using z by simp
  show ?thesis using 1 2 a by simp
qed

lemma Sync_returns:
  assumes "synced (sss rt) = 0"
    and "\<forall>i < length (sync (sss rt)). sync (sss rt) ! i = Open \<and> i < length (goroutines rt) \<and>
       \<not> exited (goroutines rt ! i)"
  shows "\<exists>rt'. Sync rt = Returns rt'"
proof -
  let ?n = "length (sync (sss rt))"
  let ?rt0 = "rt\<lparr>sss := (sss rt)\<lparr>synced := synced (sss rt) + int ?n\<rparr>\<rparr>"
  have "\<forall>i \<in> set [0..<?n]. sync (sss ?rt0) ! i = Open \<and> i < length (goroutines ?rt0) \<and> \<not> exited (goroutines ?rt0 ! i)"
    using assms(2) by simp
  moreover have "int (length [0..<?n]) \<le> synced (sss ?rt0)"
    using assms(1) by simp
  ultimately obtain rt' where l: "sync_loop [0..<?n] ?rt0 = Returns rt'"
    using sync_loop_returns [of "[0..<?n]" ?rt0] by blast
  have "sss rt' = (sss ?rt0)\<lparr>synced := synced (sss ?rt0) - int (length [0..<?n])\<rparr>"
    using sync_loop_Returns [OF l distinct_upt] by blast
  then have "synced (sss rt') = 0" using assms(1) by simp
  then show ?thesis using l assms(1) by (simp add: Sync_def Let_def)
qed

subsection \<open>The example runs\<close>

lemma example_runtime_eq:
  "example_runtime =
     \<lparr>sss = example_sink\<lparr>ingestedSpans := 1, traceClient := Some (trace_Client 0), sync := [Open]\<rparr>,
      goroutines = [new_submitter\<lparr>req := True, ingested := 1, body := [example_event]\<rparr>]\<rparr>"
  by (simp add: example_runtime_def deliver_def Start_def Let_def example_sink_fields word_sless_alt
      submitter_step.simps new_submitter_def word_sle_eq)




subsection \<open>Sync, Stop and Flush\<close>









text \<open>
  C8, as the code has it. \<open>Stop\<close> closes the sync channel of every submitter and returns:
  it does not touch or wait for the submitters. A running submitter that then finds its
  channel closed closes the request it had started, so that all its requests are posted,
  and exits: no later step changes it.
\<close>

theorem stop_closes_channels:
  "(Closed \<notin> set (sync (sss rt)) \<longrightarrow> (\<exists>rt'. Stop rt = Returns rt')) \<and>
   (Stop rt = Returns rt' \<longrightarrow>
      sync (sss rt') = map (\<lambda>signal. Closed) (sync (sss rt)) \<and>
      goroutines rt' = goroutines rt \<and>
      (i < length (goroutines rt) \<and> i < length (sync (sss rt)) \<and> \<not> exited (goroutines rt ! i) \<longrightarrow>
         exited (goroutines (observe_close i rt') ! i) \<and>
         posted (goroutines (observe_close i rt') ! i) = started_requests (goroutines rt ! i) \<and>
         (\<forall>bs c. submitter_step bs (goroutines (observe_close i rt') ! i) c =
            goroutines (observe_close i rt') ! i)))"
proof -
  have 1: "Closed \<notin> set (sync (sss rt)) \<longrightarrow> (\<exists>rt'. Stop rt = Returns rt')"
    by (simp add: Stop_def)
  have 2: "sync (sss rt') = map (\<lambda>signal. Closed) (sync (sss rt)) \<and> goroutines rt' = goroutines rt"
    if "Stop rt = Returns rt'"
    using that by (auto simp add: Stop_def split: if_splits)
  have 3: "exited (goroutines (observe_close i rt') ! i) \<and>
         posted (goroutines (observe_close i rt') ! i) = started_requests (goroutines rt ! i) \<and>
         (\<forall>bs c. submitter_step bs (goroutines (observe_close i rt') ! i) c =
            goroutines (observe_close i rt') ! i)"
    if r: "Stop rt = Returns rt'"
      and a: "i < length (goroutines rt) \<and> i < length (sync (sss rt)) \<and> \<not> exited (goroutines rt ! i)"
  proof -
    let ?g = "submitter_step (batchSize (sss rt')) (goroutines rt ! i) (SyncRecv False)"
    have o: "goroutines (observe_close i rt') ! i = ?g"
      using a 2 [OF r] by (simp add: observe_close_def)
    have ne: "\<not> exited (goroutines rt ! i)" using a by simp
    note s = sync_step [OF ne, of "batchSize (sss rt')" False]
    show ?thesis using o s by (simp add: exited_step)
  qed
  show ?thesis using 1 2 3 by blast
qed

lemma Stop_example_runtime:
  "Stop example_runtime = Returns (example_runtime\<lparr>sss := (sss example_runtime)\<lparr>sync := [Closed]\<rparr>\<rparr>)"
  by (simp add: Stop_def example_runtime_eq)

theorem stop_closes_channels_witness:
  "Closed \<notin> set (sync (sss example_runtime)) \<and>
   Stop example_runtime = Returns (example_runtime\<lparr>sss := (sss example_runtime)\<lparr>sync := [Closed]\<rparr>\<rparr>) \<and>
   0 < length (goroutines example_runtime) \<and> 0 < length (sync (sss example_runtime)) \<and>
   \<not> exited (goroutines example_runtime ! 0) \<and>
   exited (goroutines (observe_close 0 (example_runtime\<lparr>sss := (sss example_runtime)\<lparr>sync := [Closed]\<rparr>\<rparr>)) ! 0) \<and>
   posted (goroutines (observe_close 0 (example_runtime\<lparr>sss := (sss example_runtime)\<lparr>sync := [Closed]\<rparr>\<rparr>)) ! 0) =
     [[example_event]]"
proof -
  have a: "sync (sss example_runtime) = [Open]" "0 < length (goroutines example_runtime)"
    "\<not> exited (goroutines example_runtime ! 0)"
    "started_requests (goroutines example_runtime ! 0) = [[example_event]]"
    by (simp_all add: example_runtime_eq new_submitter_def started_requests_def)
  show ?thesis
    using stop_closes_channels [of example_runtime
        "example_runtime\<lparr>sss := (sss example_runtime)\<lparr>sync := [Closed]\<rparr>\<rparr>" 0]
      a Stop_example_runtime
    by simp
qed

text \<open>
  The claim C8 as stated fails: in the state in which \<open>Stop\<close> returns, the submitter of
  the example has not exited, and the request it has started, with one event in its body,
  is not closed.
\<close>

theorem stop_returns_early_counterexample:
  "Stop example_runtime = Returns (example_runtime\<lparr>sss := (sss example_runtime)\<lparr>sync := [Closed]\<rparr>\<rparr>) \<and>
   goroutines (example_runtime\<lparr>sss := (sss example_runtime)\<lparr>sync := [Closed]\<rparr>\<rparr>) =
     [new_submitter\<lparr>req := True, ingested := 1, body := [example_event]\<rparr>] \<and>
   exited (goroutines (example_runtime\<lparr>sss := (sss example_runtime)\<lparr>sync := [Closed]\<rparr>\<rparr>) ! 0) = False \<and>
   posted (goroutines (example_runtime\<lparr>sss := (sss example_runtime)\<lparr>sync := [Closed]\<rparr>\<rparr>) ! 0) = []"
  by (simp add: Stop_def example_runtime_eq new_submitter_def)

lemma sink_Name_eq: "sink_Name = ''splunk''"
  by (simp add: sink_Name_def)

lemma Flush_Returns:
  assumes "Flush rt = Returns (rt1, samples)"
  shows "Sync rt = Returns (rt1\<lparr>sss := sss rt\<rparr>) \<and>
    sss rt1 = (sss rt)\<lparr>ingestedSpans := 0, droppedSpans := 0, skippedSpans := 0\<rparr> \<and>
    samples =
      [Count MetricKeyTotalSpansFlushed (float32 (ingestedSpans (sss rt))) [(''sink'', ''splunk'')],
       Count MetricKeyTotalSpansDropped (float32 (droppedSpans (sss rt))) [(''sink'', ''splunk'')],
       Count MetricKeyTotalSpansSkipped (float32 (skippedSpans (sss rt))) [(''sink'', ''splunk'')]]"
proof -
  from assms obtain rt0 where r: "Sync rt = Returns rt0"
    by (auto simp add: Flush_def split: go_result.splits)
  have s0: "sss rt0 = sss rt" using Sync_Returns [OF r] by blast
  have f: "Flush rt = Returns (rt0\<lparr>sss := (sss rt0)\<lparr>ingestedSpans := 0, droppedSpans := 0, skippedSpans := 0\<rparr>\<rparr>,
      [Count MetricKeyTotalSpansFlushed (float32 (ingestedSpans (sss rt0))) [(''sink'', ''splunk'')],
       Count MetricKeyTotalSpansDropped (float32 (droppedSpans (sss rt0))) [(''sink'', ''splunk'')],
       Count MetricKeyTotalSpansSkipped (float32 (skippedSpans (sss rt0))) [(''sink'', ''splunk'')]])"
    by (simp add: Flush_def r Let_def sink_Name_eq)
  have rt1: "rt1 = rt0\<lparr>sss := (sss rt0)\<lparr>ingestedSpans := 0, droppedSpans := 0, skippedSpans := 0\<rparr>\<rparr>"
    using f assms by simp
  have "rt0 = rt1\<lparr>sss := sss rt\<rparr>" using rt1 s0 by simp
  then show ?thesis using r f assms s0 rt1 by simp
qed

lemma Flush_returns:
  "Sync rt = Returns rt0 \<Longrightarrow>
   Flush rt = Returns (rt0\<lparr>sss := (sss rt)\<lparr>ingestedSpans := 0, droppedSpans := 0, skippedSpans := 0\<rparr>\<rparr>,
      [Count MetricKeyTotalSpansFlushed (float32 (ingestedSpans (sss rt))) [(''sink'', ''splunk'')],
       Count MetricKeyTotalSpansDropped (float32 (droppedSpans (sss rt))) [(''sink'', ''splunk'')],
       Count MetricKeyTotalSpansSkipped (float32 (skippedSpans (sss rt))) [(''sink'', ''splunk'')]])"
  using Sync_Returns [of rt rt0] by (simp add: Flush_def Let_def sink_Name_eq)

lemma Flush_twice:
  assumes "Flush rt = Returns (rt1, samples)"
  shows "Sync rt = Returns (rt1\<lparr>sss := sss rt\<rparr>) \<and>
    sss rt1 = (sss rt)\<lparr>ingestedSpans := 0, droppedSpans := 0, skippedSpans := 0\<rparr> \<and>
    samples =
      [Count MetricKeyTotalSpansFlushed (float32 (ingestedSpans (sss rt))) [(''sink'', ''splunk'')],
       Count MetricKeyTotalSpansDropped (float32 (droppedSpans (sss rt))) [(''sink'', ''splunk'')],
       Count MetricKeyTotalSpansSkipped (float32 (skippedSpans (sss rt))) [(''sink'', ''splunk'')]] \<and>
    (\<exists>rt2. Flush rt1 = Returns (rt2,
        [Count MetricKeyTotalSpansFlushed (float32 0) [(''sink'', ''splunk'')],
         Count MetricKeyTotalSpansDropped (float32 0) [(''sink'', ''splunk'')],
         Count MetricKeyTotalSpansSkipped (float32 0) [(''sink'', ''splunk'')]]) \<and>
       sss rt2 = sss rt1 \<and> map posted (goroutines rt2) = map posted (goroutines rt1))"
proof -
  note f = Flush_Returns [OF assms]
  let ?rt0 = "rt1\<lparr>sss := sss rt\<rparr>"
  have r: "Sync rt = Returns ?rt0" using f by blast
  note a = Sync_Returns [OF r]
  have s1: "sss rt1 = (sss rt)\<lparr>ingestedSpans := 0, droppedSpans := 0, skippedSpans := 0\<rparr>" using f by blast
  have g1: "goroutines ?rt0 = goroutines rt1" by simp
  have z: "synced (sss rt1) = 0" using a s1 by simp
  have sy: "sync (sss rt1) = sync (sss rt)" using s1 by simp
  have bs: "batchSize (sss rt1) = batchSize (sss rt)" using s1 by simp
  have live: "sync (sss rt) ! i = Open \<and> i < length (goroutines rt1) \<and> fresh (goroutines rt1 ! i)"
    if "i < length (sync (sss rt))" for i
  proof -
    from a that have o: "sync (sss rt) ! i = Open" and l: "i < length (goroutines rt)"
      and ne: "\<not> exited (goroutines rt ! i)"
      and g: "goroutines ?rt0 ! i = submitter_step (batchSize (sss rt)) (goroutines rt ! i) (SyncRecv True)"
      by blast+
    have "length (goroutines ?rt0) = length (goroutines rt)" using a by blast
    then show ?thesis using o l g sync_step [OF ne, of "batchSize (sss rt)" True] by simp
  qed
  then have "\<forall>i < length (sync (sss rt1)). sync (sss rt1) ! i = Open \<and> i < length (goroutines rt1) \<and>
       \<not> exited (goroutines rt1 ! i)"
    using sy by (simp add: fresh_def)
  with z obtain rt2' where r2: "Sync rt1 = Returns rt2'"
    using Sync_returns [of rt1] by blast
  note b = Sync_Returns [OF r2]
  let ?rt2 = "rt2'\<lparr>sss := (sss rt1)\<lparr>ingestedSpans := 0, droppedSpans := 0, skippedSpans := 0\<rparr>\<rparr>"
  have f2: "Flush rt1 = Returns (?rt2,
        [Count MetricKeyTotalSpansFlushed (float32 0) [(''sink'', ''splunk'')],
         Count MetricKeyTotalSpansDropped (float32 0) [(''sink'', ''splunk'')],
         Count MetricKeyTotalSpansSkipped (float32 0) [(''sink'', ''splunk'')]])"
    using Flush_returns [OF r2] s1 by simp
  have s2: "sss ?rt2 = sss rt1" using s1 by simp
  have len: "length (goroutines rt2') = length (goroutines rt1)" using b by blast
  have "posted (goroutines rt2' ! i) = posted (goroutines rt1 ! i)" if "i < length (goroutines rt1)" for i
  proof (cases "i < length (sync (sss rt1))")
    case True
    then have "goroutines rt2' ! i = submitter_step (batchSize (sss rt1)) (goroutines rt1 ! i) (SyncRecv True)"
      using b by blast
    moreover have "fresh (goroutines rt1 ! i)" using True live sy by simp
    ultimately show ?thesis by (simp add: sync_fresh_posted)
  next
    case False
    then have "goroutines rt2' ! i = goroutines rt1 ! i" using b by blast
    then show ?thesis by simp
  qed
  then have p: "map posted (goroutines ?rt2) = map posted (goroutines rt1)"
    using len by (simp add: list_eq_iff_nth_eq)
  show ?thesis using f f2 s2 p by blast
qed

lemma example_runtime_counted_eq:
  "example_runtime_counted =
     \<lparr>sss = example_sink\<lparr>ingestedSpans := 1, droppedSpans := 2, skippedSpans := 3,
              traceClient := Some (trace_Client 0), sync := [Open]\<rparr>,
      goroutines = [new_submitter\<lparr>req := True, ingested := 1, body := [example_event]\<rparr>]\<rparr>"
  by (simp add: example_runtime_counted_def example_runtime_eq)

lemma Sync_example_runtime_counted:
  "Sync example_runtime_counted =
     Returns (example_runtime_counted\<lparr>goroutines := [new_submitter\<lparr>posted := [[example_event]], batches := 1\<rparr>]\<rparr>)"
  by (simp add: example_runtime_counted_eq Sync_def Let_def sync_send_def
      submitter_step.simps hecReq_Close_def next_batch_def new_submitter_def example_sink_def
      NewSplunkSpanSink_def newHecClient_ok_def)

text \<open>
  C7. \<open>Flush\<close> first calls \<open>Sync\<close>: it panics or blocks when \<open>Sync\<close> does, and when \<open>Sync\<close>
  returns, \<open>Flush\<close> returns the state that \<open>Sync\<close> left with the three counters at zero, and
  reports the three counters as they were, converted to \<open>float32\<close>, under the names for
  flushed, dropped and skipped spans and the tag of the sink. A second \<open>Flush\<close> right after
  returns too, reports zero for all three and posts no request. \<open>Flush\<close> returns on every
  running sink: when the wait group is at zero, every sync channel is open and its
  submitter is running.
\<close>

theorem flush_reports_and_resets:
  "(\<forall>m. Sync rt = Panics m \<longrightarrow> Flush rt = Panics m) \<and>
   (Sync rt = Blocks \<longrightarrow> Flush rt = Blocks) \<and>
   (Sync rt = Returns rt0 \<longrightarrow>
      Flush rt =
        Returns (rt0\<lparr>sss := (sss rt)\<lparr>ingestedSpans := 0, droppedSpans := 0, skippedSpans := 0\<rparr>\<rparr>,
          [Count MetricKeyTotalSpansFlushed (float32 (ingestedSpans (sss rt))) [(''sink'', ''splunk'')],
           Count MetricKeyTotalSpansDropped (float32 (droppedSpans (sss rt))) [(''sink'', ''splunk'')],
           Count MetricKeyTotalSpansSkipped (float32 (skippedSpans (sss rt))) [(''sink'', ''splunk'')]]) \<and>
      (\<exists>rt2. Flush (rt0\<lparr>sss := (sss rt)\<lparr>ingestedSpans := 0, droppedSpans := 0, skippedSpans := 0\<rparr>\<rparr>) =
         Returns (rt2,
           [Count MetricKeyTotalSpansFlushed (float32 0) [(''sink'', ''splunk'')],
            Count MetricKeyTotalSpansDropped (float32 0) [(''sink'', ''splunk'')],
            Count MetricKeyTotalSpansSkipped (float32 0) [(''sink'', ''splunk'')]]) \<and>
         sss rt2 = (sss rt)\<lparr>ingestedSpans := 0, droppedSpans := 0, skippedSpans := 0\<rparr> \<and>
         map posted (goroutines rt2) = map posted (goroutines rt0))) \<and>
   (synced (sss rt) = 0 \<and>
    (\<forall>i < length (sync (sss rt)). sync (sss rt) ! i = Open \<and> i < length (goroutines rt) \<and>
       \<not> exited (goroutines rt ! i)) \<longrightarrow>
      (\<exists>rt1. Flush rt =
         Returns (rt1,
           [Count MetricKeyTotalSpansFlushed (float32 (ingestedSpans (sss rt))) [(''sink'', ''splunk'')],
            Count MetricKeyTotalSpansDropped (float32 (droppedSpans (sss rt))) [(''sink'', ''splunk'')],
            Count MetricKeyTotalSpansSkipped (float32 (skippedSpans (sss rt))) [(''sink'', ''splunk'')]]) \<and>
         sss rt1 = (sss rt)\<lparr>ingestedSpans := 0, droppedSpans := 0, skippedSpans := 0\<rparr>)) \<and>
   (Flush rt = Returns (rt1', samples) \<longrightarrow>
      Sync rt = Returns (rt1'\<lparr>sss := sss rt\<rparr>) \<and>
      sss rt1' = (sss rt)\<lparr>ingestedSpans := 0, droppedSpans := 0, skippedSpans := 0\<rparr> \<and>
      samples =
        [Count MetricKeyTotalSpansFlushed (float32 (ingestedSpans (sss rt))) [(''sink'', ''splunk'')],
         Count MetricKeyTotalSpansDropped (float32 (droppedSpans (sss rt))) [(''sink'', ''splunk'')],
         Count MetricKeyTotalSpansSkipped (float32 (skippedSpans (sss rt))) [(''sink'', ''splunk'')]])"
proof -
  let ?zero = "(sss rt)\<lparr>ingestedSpans := 0, droppedSpans := 0, skippedSpans := 0\<rparr>"
  let ?samples = "[Count MetricKeyTotalSpansFlushed (float32 (ingestedSpans (sss rt))) [(''sink'', ''splunk'')],
           Count MetricKeyTotalSpansDropped (float32 (droppedSpans (sss rt))) [(''sink'', ''splunk'')],
           Count MetricKeyTotalSpansSkipped (float32 (skippedSpans (sss rt))) [(''sink'', ''splunk'')]]"
  let ?zeros = "[Count MetricKeyTotalSpansFlushed (float32 0) [(''sink'', ''splunk'')],
            Count MetricKeyTotalSpansDropped (float32 0) [(''sink'', ''splunk'')],
            Count MetricKeyTotalSpansSkipped (float32 0) [(''sink'', ''splunk'')]]"
  have 1: "\<forall>m. Sync rt = Panics m \<longrightarrow> Flush rt = Panics m" by (simp add: Flush_def)
  have 2: "Sync rt = Blocks \<longrightarrow> Flush rt = Blocks" by (simp add: Flush_def)
  have 3: "Flush rt = Returns (rt0\<lparr>sss := ?zero\<rparr>, ?samples) \<and>
      (\<exists>rt2. Flush (rt0\<lparr>sss := ?zero\<rparr>) = Returns (rt2, ?zeros) \<and> sss rt2 = ?zero \<and>
         map posted (goroutines rt2) = map posted (goroutines rt0))"
    if r: "Sync rt = Returns rt0" for rt0
  proof -
    have f: "Flush rt = Returns (rt0\<lparr>sss := ?zero\<rparr>, ?samples)" using r by (rule Flush_returns)
    from Flush_twice [OF f] obtain rt2 where "Flush (rt0\<lparr>sss := ?zero\<rparr>) = Returns (rt2, ?zeros)"
      and "sss rt2 = sss (rt0\<lparr>sss := ?zero\<rparr>)"
      and "map posted (goroutines rt2) = map posted (goroutines (rt0\<lparr>sss := ?zero\<rparr>))"
      by blast
    then show ?thesis using f by auto
  qed
  have 4: "\<exists>rt1. Flush rt = Returns (rt1, ?samples) \<and> sss rt1 = ?zero"
    if "synced (sss rt) = 0 \<and>
      (\<forall>i < length (sync (sss rt)). sync (sss rt) ! i = Open \<and> i < length (goroutines rt) \<and>
         \<not> exited (goroutines rt ! i))"
  proof -
    from that obtain rt0 where "Sync rt = Returns rt0" using Sync_returns [of rt] by blast
    then have "Flush rt = Returns (rt0\<lparr>sss := ?zero\<rparr>, ?samples)" by (rule Flush_returns)
    then show ?thesis by (intro exI [of _ "rt0\<lparr>sss := ?zero\<rparr>"]) simp
  qed
  have 5: "Sync rt = Returns (rt1'\<lparr>sss := sss rt\<rparr>) \<and> sss rt1' = ?zero \<and> samples = ?samples"
    if "Flush rt = Returns (rt1', samples)"
    using that by (rule Flush_Returns)
  show ?thesis using 1 2 3 [of rt0] 4 5 by blast
qed

theorem flush_reports_and_resets_witness:
  "Sync example_runtime_counted =
     Returns (example_runtime_counted\<lparr>goroutines := [new_submitter\<lparr>posted := [[example_event]], batches := 1\<rparr>]\<rparr>) \<and>
   Flush example_runtime_counted =
     Returns (example_runtime_counted\<lparr>goroutines := [new_submitter\<lparr>posted := [[example_event]], batches := 1\<rparr>],
                sss := (sss example_runtime_counted)\<lparr>ingestedSpans := 0, droppedSpans := 0, skippedSpans := 0\<rparr>\<rparr>,
       [Count MetricKeyTotalSpansFlushed (float32 1) [(''sink'', ''splunk'')],
        Count MetricKeyTotalSpansDropped (float32 2) [(''sink'', ''splunk'')],
        Count MetricKeyTotalSpansSkipped (float32 3) [(''sink'', ''splunk'')]]) \<and>
   (\<exists>rt2. Flush (example_runtime_counted\<lparr>goroutines := [new_submitter\<lparr>posted := [[example_event]], batches := 1\<rparr>],
                sss := (sss example_runtime_counted)\<lparr>ingestedSpans := 0, droppedSpans := 0, skippedSpans := 0\<rparr>\<rparr>) =
      Returns (rt2,
        [Count MetricKeyTotalSpansFlushed (float32 0) [(''sink'', ''splunk'')],
         Count MetricKeyTotalSpansDropped (float32 0) [(''sink'', ''splunk'')],
         Count MetricKeyTotalSpansSkipped (float32 0) [(''sink'', ''splunk'')]]) \<and>
      map posted (goroutines rt2) = [[[example_event]]])"
proof -
  have c: "ingestedSpans (sss example_runtime_counted) = 1" "droppedSpans (sss example_runtime_counted) = 2"
    "skippedSpans (sss example_runtime_counted) = 3"
    by (simp_all add: example_runtime_counted_eq example_sink_fields)
  note t = flush_reports_and_resets [where rt = example_runtime_counted
      and rt0 = "example_runtime_counted\<lparr>goroutines := [new_submitter\<lparr>posted := [[example_event]], batches := 1\<rparr>]\<rparr>"
      and ?rt1' = example_runtime_counted and samples = "[]"]
  note f = t [THEN conjunct2, THEN conjunct2, THEN conjunct1, THEN mp, OF Sync_example_runtime_counted]
  let ?R0 = "example_runtime_counted\<lparr>goroutines := [new_submitter\<lparr>posted := [[example_event]], batches := 1\<rparr>]\<rparr>"
  let ?R1 = "?R0\<lparr>sss := (sss example_runtime_counted)\<lparr>ingestedSpans := 0, droppedSpans := 0, skippedSpans := 0\<rparr>\<rparr>"
  have f1: "Flush example_runtime_counted =
      Returns (?R1,
       [Count MetricKeyTotalSpansFlushed (float32 1) [(''sink'', ''splunk'')],
        Count MetricKeyTotalSpansDropped (float32 2) [(''sink'', ''splunk'')],
        Count MetricKeyTotalSpansSkipped (float32 3) [(''sink'', ''splunk'')]])"
    using f c by simp
  from f obtain rt2 where r2: "Flush ?R1 =
      Returns (rt2,
        [Count MetricKeyTotalSpansFlushed (float32 0) [(''sink'', ''splunk'')],
         Count MetricKeyTotalSpansDropped (float32 0) [(''sink'', ''splunk'')],
         Count MetricKeyTotalSpansSkipped (float32 0) [(''sink'', ''splunk'')]])"
    and p2: "map posted (goroutines rt2) = map posted (goroutines ?R0)"
    by blast
  have p: "map posted (goroutines rt2) = [[[example_event]]]" using p2 by simp
  have ex: "\<exists>rt2. Flush ?R1 =
      Returns (rt2,
        [Count MetricKeyTotalSpansFlushed (float32 0) [(''sink'', ''splunk'')],
         Count MetricKeyTotalSpansDropped (float32 0) [(''sink'', ''splunk'')],
         Count MetricKeyTotalSpansSkipped (float32 0) [(''sink'', ''splunk'')]]) \<and>
      map posted (goroutines rt2) = [[[example_event]]]"
    using r2 p by (intro exI [of _ rt2] conjI)
  show ?thesis
    by (intro conjI) (rule Sync_example_runtime_counted, rule f1, rule ex)
qed

end
